theory Spec2Isabelle
  imports Complex_Main "HOL-Library.Sublist" "HOL-Library.Char_ord" "HOL-Library.List_Lexorder"
begin

section \<open>JavaScript values used by the notification engine\<close>

text \<open>
  The engine computes with the results of \<^verbatim>\<open>Date.parse\<close> and of \<^verbatim>\<open>Number.parseInt\<close>: each is
  either \<^verbatim>\<open>NaN\<close> or an integer far below \<open>2^53\<close>, so differences and the quotient by the
  literal \<^verbatim>\<open>1000 * 60\<close> are modelled exactly, over the rationals. No infinity arises from
  these operations.
\<close>

datatype jsnum = NaN | Fin rat

fun isFinite :: "jsnum \<Rightarrow> bool" where
  "isFinite NaN = False"
| "isFinite (Fin _) = True"

fun js_minus :: "jsnum \<Rightarrow> jsnum \<Rightarrow> jsnum" where
  "js_minus (Fin a) (Fin b) = Fin (a - b)"
| "js_minus _ _ = NaN"

text \<open>Division by a non-zero literal (the source divides by \<^verbatim>\<open>(1000 * 60)\<close> only).\<close>

fun js_divide :: "jsnum \<Rightarrow> rat \<Rightarrow> jsnum" where
  "js_divide (Fin a) d = Fin (a / d)"
| "js_divide NaN _ = NaN"

text \<open>Comparisons: every comparison with \<^verbatim>\<open>NaN\<close> is false.\<close>

fun js_less :: "jsnum \<Rightarrow> jsnum \<Rightarrow> bool" where
  "js_less (Fin a) (Fin b) = (a < b)"
| "js_less _ _ = False"

fun js_le :: "jsnum \<Rightarrow> jsnum \<Rightarrow> bool" where
  "js_le (Fin a) (Fin b) = (a \<le> b)"
| "js_le _ _ = False"

fun js_greater :: "jsnum \<Rightarrow> jsnum \<Rightarrow> bool" where
  "js_greater (Fin a) (Fin b) = (a > b)"
| "js_greater _ _ = False"

text \<open>
  Truthiness of a nullable TEXT column: \<^verbatim>\<open>null\<close> and the empty string are falsy.
\<close>

fun truthy :: "string option \<Rightarrow> bool" where
  "truthy None = False"
| "truthy (Some s) = (s \<noteq> [])"

text \<open>\<^verbatim>\<open>Date.parse\<close> is a parameter \<open>dp\<close>; applied to \<^verbatim>\<open>null\<close> it yields \<^verbatim>\<open>NaN\<close>.\<close>

fun parse_nullable :: "(string \<Rightarrow> jsnum) \<Rightarrow> string option \<Rightarrow> jsnum" where
  "parse_nullable dp None = NaN"
| "parse_nullable dp (Some t) = dp t"

datatype js_error = Error string | External string

text \<open>Decimal rendering of integers inside template literals.\<close>

definition digit_char :: "nat \<Rightarrow> char" where
  "digit_char n = ''0123456789'' ! n"

function show_nat :: "nat \<Rightarrow> string" where
  "show_nat n = (if n < 10 then [digit_char n] else show_nat (n div 10) @ [digit_char (n mod 10)])"
  by pat_completeness auto
termination
  by (relation "measure (\<lambda>n. n)") auto

definition show_int :: "int \<Rightarrow> string" where
  "show_int i = (if i < 0 then CHR ''-'' # show_nat (nat (- i)) else show_nat (nat i))"

fun join_with :: "string \<Rightarrow> string list \<Rightarrow> string" where
  "join_with sep [] = []"
| "join_with sep [x] = x"
| "join_with sep (x # y # ys) = x @ sep @ join_with sep (y # ys)"

section \<open>The feed client (server/src/ebird.js)\<close>

text \<open>The engine reads three fields of an observation of the feed.\<close>

record observation =
  subId :: string
  obsDt :: string
  locName :: string

datatype json_value = JArray "observation list" | JOther

record ebird_request =
  species_param :: string
  lat_param :: rat
  lng_param :: rat
  dist_param :: int
  back_param :: int
  maxResults_param :: string
  X_eBirdApiToken :: string

record response =
  ok :: bool
  status :: int
  statusText :: string
  body_text :: string
  body_json :: "js_error + json_value"

text \<open>
  \<open>net\<close> is the network: \<^verbatim>\<open>fetch\<close> either rejects or resolves to a response.
\<close>

definition fetchRecentObservations ::
  "(ebird_request \<Rightarrow> js_error + response) \<Rightarrow> string \<Rightarrow> rat \<Rightarrow> rat \<Rightarrow> int \<Rightarrow> int \<Rightarrow> string
     \<Rightarrow> js_error + json_value" where
  "fetchRecentObservations net speciesCode' latitude' longitude' radiusMiles' lookBackDays' apiKey =
     (if apiKey = [] then Inl (Error ''Missing eBird API key for backend'')
      else
        (case net \<lparr>species_param = speciesCode', lat_param = latitude', lng_param = longitude',
                    dist_param = radiusMiles', back_param = lookBackDays',
                    maxResults_param = ''10'',
                    X_eBirdApiToken = apiKey\<rparr> of
           Inl e \<Rightarrow> Inl e
         | Inr resp \<Rightarrow>
             if \<not> ok resp then
               Inl (Error (''eBird API returned '' @ show_int (status resp) @ '' ''
                            @ statusText resp @ '': '' @ body_text resp))
             else body_json resp))"

section \<open>The subscription store (server/src/db.js)\<close>

record subscription =
  id_sub :: int
  phone :: string
  speciesCode :: string
  speciesCommonName :: string
  locationLabel :: string
  latitude :: rat
  longitude :: rat
  radiusMiles :: int
  lookBackDays :: int
  createdAt :: string
  lastObservationId :: "string option"
  lastNotifiedAt :: "string option"

type_synonym table = "subscription list"

text \<open>
  \<^verbatim>\<open>INSERT\<close>: the row id is assigned by SQLite (\<open>rowid\<close>), the creation time is the clock's.
\<close>

definition createSubscription :: "int \<Rightarrow> string \<Rightarrow> subscription \<Rightarrow> table \<Rightarrow> table" where
  "createSubscription rowid now input rows =
     rows @ [input\<lparr>id_sub := rowid, createdAt := now,
                    lastObservationId := None, lastNotifiedAt := None\<rparr>]"

definition getSubscriptionById :: "table \<Rightarrow> int \<Rightarrow> subscription option" where
  "getSubscriptionById rows i = find (\<lambda>r. id_sub r = i) rows"

text \<open>
  \<^verbatim>\<open>ORDER BY createdAt DESC\<close>, by insertion, with the byte order of TEXT values. SQLite
  leaves the order of rows with equal keys open; here they stay in table order.
\<close>

fun insert_desc :: "subscription \<Rightarrow> table \<Rightarrow> table" where
  "insert_desc r [] = [r]"
| "insert_desc r (x # xs) =
     (if createdAt x \<le> createdAt r then r # x # xs else x # insert_desc r xs)"

definition listSubscriptions :: "table \<Rightarrow> subscription list" where
  "listSubscriptions rows = foldr insert_desc rows []"

definition deleteSubscription :: "table \<Rightarrow> int \<Rightarrow> table" where
  "deleteSubscription rows i = filter (\<lambda>r. id_sub r \<noteq> i) rows"

text \<open>
  \<^verbatim>\<open>UPDATE subscriptions SET lastObservationId = .., lastNotifiedAt = .. WHERE id = ..\<close>;
  \<open>now\<close> is \<^verbatim>\<open>new Date().toISOString()\<close>.
\<close>

definition updateSubscriptionLastObservation :: "string \<Rightarrow> table \<Rightarrow> int \<Rightarrow> string \<Rightarrow> table" where
  "updateSubscriptionLastObservation now rows i observationId =
     map (\<lambda>r. if id_sub r = i
               then r\<lparr>lastObservationId := Some observationId, lastNotifiedAt := Some now\<rparr>
               else r) rows"

section \<open>The notifier (server/src/notifier.js)\<close>

record config =
  ebirdApiKey :: string
  twilioAccountSid :: string
  twilioAuthToken :: string
  twilioFromNumber :: string
  pollIntervalCron :: string
  minimumNotificationMinutes :: jsnum

record sms =
  body_sms :: string
  from_sms :: string
  to_sms :: string

text \<open>
  What one cycle meets outside the process: the network, the SMS transport
  (\<open>None\<close>: the message was accepted), a fault of the UPDATE statement for a row id, and the
  clock read by the UPDATE for a row id.
\<close>

record env =
  http_fetch :: "ebird_request \<Rightarrow> js_error + response"
  messages_create :: "sms \<Rightarrow> js_error option"
  statement_run :: "int \<Rightarrow> js_error option"
  now_iso :: "int \<Rightarrow> string"

datatype log_entry = Failed_to_process int js_error | Warning string

record world =
  db :: table
  sent :: "sms list"
  console :: "log_entry list"

text \<open>How one iteration of the loop body ends.\<close>

datatype exit = Continue | Thrown js_error | Completed

text \<open>The callback of \<^verbatim>\<open>observations.filter\<close> (lines 62-73).\<close>

definition is_new :: "(string \<Rightarrow> jsnum) \<Rightarrow> subscription \<Rightarrow> observation \<Rightarrow> bool" where
  "is_new dp s observation =
     (if truthy (lastObservationId s) \<and> Some (subId observation) = lastObservationId s then False
      else if truthy (lastNotifiedAt s)
              \<and> (let obsTime = dp (obsDt observation)
                 in isFinite obsTime \<and> js_le obsTime (parse_nullable dp (lastNotifiedAt s)))
           then False
      else True)"

text \<open>
  Lines 49-77 on a fetched array: the candidates, or \<open>[]\<close> where the loop takes
  \<^verbatim>\<open>continue\<close>.
\<close>

definition dedup_step :: "(string \<Rightarrow> jsnum) \<Rightarrow> subscription \<Rightarrow> observation list \<Rightarrow> observation list" where
  "dedup_step dp s observations =
     (case observations of
        [] \<Rightarrow> []
      | latest # _ \<Rightarrow>
          if truthy (lastObservationId s) \<and> lastObservationId s = Some (subId latest) then []
          else filter (is_new dp s) observations)"

text \<open>
  Lines 79-88: true where the loop takes \<^verbatim>\<open>continue\<close>; \<open>first\<close> is \<^verbatim>\<open>newSightings[0]\<close>.
\<close>

definition throttled :: "(string \<Rightarrow> jsnum) \<Rightarrow> jsnum \<Rightarrow> subscription \<Rightarrow> observation \<Rightarrow> bool" where
  "throttled dp minimumNotificationMinutes' s first =
     (if truthy (lastNotifiedAt s) \<and> js_greater minimumNotificationMinutes' (Fin 0) then
        (let lastNotified = parse_nullable dp (lastNotifiedAt s) in
         if isFinite lastNotified then
           (let earliestObservation = dp (obsDt first);
                minutesSinceLast = js_divide (js_minus earliestObservation lastNotified) (1000 * 60)
            in isFinite minutesSinceLast \<and> js_less minutesSinceLast minimumNotificationMinutes')
         else False)
      else False)"

text \<open>Lines 27-30: the Twilio client exists when both credentials are non-empty.\<close>

definition twilioClient :: "config \<Rightarrow> bool" where
  "twilioClient cfg = (twilioAccountSid cfg \<noteq> [] \<and> twilioAuthToken cfg \<noteq> [])"

text \<open>Lines 91-102: the one message of a batch.\<close>

definition alert_message :: "subscription \<Rightarrow> observation \<Rightarrow> observation list \<Rightarrow> string" where
  "alert_message s primary others =
     (let extras = length others in
      join_with '' '' (filter (\<lambda>p. p \<noteq> [])
        [''BirdTrail alert: '' @ speciesCommonName s,
         ''Latest at '' @ locName primary @ '' ('' @ obsDt primary @ '').'',
         (if extras > 0 then show_nat extras @ '' more sightings nearby in the last check.'' else []),
         ''Search radius '' @ show_int (radiusMiles s) @ ''mi around '' @ locationLabel s @ ''.'',
         ''Reply STOP to unsubscribe.'']))"

text \<open>Lines 90-109; \<open>alert_sms\<close> is the argument of \<^verbatim>\<open>messages.create\<close>.\<close>

definition alert_sms :: "config \<Rightarrow> subscription \<Rightarrow> observation \<Rightarrow> observation list \<Rightarrow> sms" where
  "alert_sms cfg s primary others =
     \<lparr>body_sms = alert_message s primary others,
      from_sms = twilioFromNumber cfg, to_sms = phone s\<rparr>"

definition dispatch :: "config \<Rightarrow> env \<Rightarrow> world \<Rightarrow> subscription \<Rightarrow> observation \<Rightarrow> observation list
    \<Rightarrow> js_error + world" where
  "dispatch cfg env w s primary others =
     (if twilioClient cfg \<and> twilioFromNumber cfg \<noteq> [] then
        (let m = alert_sms cfg s primary others
         in case messages_create env m of
              Some e \<Rightarrow> Inl e
            | None \<Rightarrow> Inr (w\<lparr>sent := sent w @ [m]\<rparr>))
      else Inr w)"

text \<open>Lines 90-111: dispatch, then the cursor update.\<close>

definition send_and_update :: "config \<Rightarrow> env \<Rightarrow> world \<Rightarrow> subscription \<Rightarrow> observation
    \<Rightarrow> observation list \<Rightarrow> world \<times> exit" where
  "send_and_update cfg env w s primary others =
     (case dispatch cfg env w s primary others of
        Inl e \<Rightarrow> (w, Thrown e)
      | Inr w1 \<Rightarrow>
          (case statement_run env (id_sub s) of
             Some e \<Rightarrow> (w1, Thrown e)
           | None \<Rightarrow>
               (w1\<lparr>db := updateSubscriptionLastObservation (now_iso env (id_sub s)) (db w1)
                            (id_sub s) (subId primary)\<rparr>, Completed)))"

text \<open>Lines 40-47: the call of the feed client for one subscription.\<close>

definition fetch_for :: "config \<Rightarrow> env \<Rightarrow> subscription \<Rightarrow> js_error + json_value" where
  "fetch_for cfg env s =
     fetchRecentObservations (http_fetch env) (speciesCode s) (latitude s) (longitude s)
       (radiusMiles s) (lookBackDays s) (ebirdApiKey cfg)"

text \<open>The body of the \<^verbatim>\<open>try\<close> block (lines 40-111).\<close>

definition pipeline :: "(string \<Rightarrow> jsnum) \<Rightarrow> config \<Rightarrow> env \<Rightarrow> world \<Rightarrow> subscription \<Rightarrow> world \<times> exit" where
  "pipeline dp cfg env w s =
     (case fetch_for cfg env s of
        Inl e \<Rightarrow> (w, Thrown e)
      | Inr fetched \<Rightarrow>
          (case fetched of
             JOther \<Rightarrow> (w, Continue)
           | JArray observations \<Rightarrow>
               (case dedup_step dp s observations of
                  [] \<Rightarrow> (w, Continue)
                | primary # others \<Rightarrow>
                    if throttled dp (minimumNotificationMinutes cfg) s primary then (w, Continue)
                    else send_and_update cfg env w s primary others)))"

text \<open>One iteration of the loop, with its \<^verbatim>\<open>catch\<close> (lines 38-118).\<close>

definition process_subscription :: "(string \<Rightarrow> jsnum) \<Rightarrow> config \<Rightarrow> env \<Rightarrow> world \<Rightarrow> subscription \<Rightarrow> world" where
  "process_subscription dp cfg env w s =
     (case pipeline dp cfg env w s of
        (w', Thrown e) \<Rightarrow> w'\<lparr>console := console w' @ [Failed_to_process (id_sub s) e]\<rparr>
      | (w', _) \<Rightarrow> w')"

text \<open>One cycle (lines 32-119).\<close>

definition execute :: "(string \<Rightarrow> jsnum) \<Rightarrow> config \<Rightarrow> env \<Rightarrow> world \<Rightarrow> world" where
  "execute dp cfg env w =
     (let subscriptions = listSubscriptions (db w) in
      if subscriptions = [] then w
      else foldl (process_subscription dp cfg env) w subscriptions)"

text \<open>
  \<^verbatim>\<open>startNotifier\<close>: the configuration check, the warning about missing SMS credentials, then
  the run at startup (each later run of the schedule is one more \<open>execute\<close>).
\<close>

definition startNotifier :: "(string \<Rightarrow> jsnum) \<Rightarrow> config \<Rightarrow> env \<Rightarrow> world \<Rightarrow> js_error + world" where
  "startNotifier dp cfg env w =
     (if ebirdApiKey cfg = [] then Inl (Error ''EBIRD_API_KEY is required to start the notifier'')
      else
        (let w1 = (if twilioAccountSid cfg = [] \<or> twilioAuthToken cfg = []
                      \<or> twilioFromNumber cfg = []
                   then w\<lparr>console := console w @
                          [Warning ''[notifier] Twilio credentials missing; SMS sending is disabled.'']\<rparr>
                   else w)
         in Inr (execute dp cfg env w1)))"

section \<open>The specification's dedup rule\<close>

text \<open>
  The drop rule in the specification's words: an observation is dropped when its submission
  id equals the cursor's \<open>lastObservationId\<close>, or when \<open>lastNotifiedAt\<close> is set and the
  observed-at time is at most \<open>lastNotifiedAt\<close>. A cursor field is set when it is neither
  \<^verbatim>\<open>null\<close> nor empty; a time that does not parse is not at most anything.
\<close>

definition DedupFilter_drops :: "(string \<Rightarrow> jsnum) \<Rightarrow> subscription \<Rightarrow> observation \<Rightarrow> bool" where
  "DedupFilter_drops dp cursor observation =
     ((truthy (lastObservationId cursor) \<and> lastObservationId cursor = Some (subId observation))
      \<or> (truthy (lastNotifiedAt cursor)
          \<and> js_le (dp (obsDt observation)) (parse_nullable dp (lastNotifiedAt cursor))))"

section \<open>The specification's throttle rule\<close>

text \<open>
  The throttle in the specification's words: never throttled while \<open>lastNotifiedAt\<close> is unset;
  otherwise the gap in minutes between the earliest observed-at time among the new sightings
  and \<open>lastNotifiedAt\<close> must be at least \<open>minIntervalMinutes\<close>.
\<close>

fun js_min :: "jsnum \<Rightarrow> jsnum \<Rightarrow> jsnum" where
  "js_min (Fin a) (Fin b) = Fin (min a b)"
| "js_min _ _ = NaN"

fun earliest_time :: "jsnum list \<Rightarrow> jsnum" where
  "earliest_time [] = NaN"
| "earliest_time [t] = t"
| "earliest_time (t # u # ts) = js_min t (earliest_time (u # ts))"

fun js_ge :: "jsnum \<Rightarrow> jsnum \<Rightarrow> bool" where
  "js_ge (Fin a) (Fin b) = (a \<ge> b)"
| "js_ge _ _ = False"

definition ThrottleGate_shouldNotify ::
  "(string \<Rightarrow> jsnum) \<Rightarrow> jsnum \<Rightarrow> subscription \<Rightarrow> observation list \<Rightarrow> bool" where
  "ThrottleGate_shouldNotify dp minIntervalMinutes cursor newSightings =
     (if \<not> truthy (lastNotifiedAt cursor) then True
      else js_ge (js_divide (js_minus (earliest_time (map (\<lambda>ob. dp (obsDt ob)) newSightings))
                                      (parse_nullable dp (lastNotifiedAt cursor))) (1000 * 60))
                 minIntervalMinutes)"

section \<open>Example data\<close>

text \<open>A fragment of \<^verbatim>\<open>Date.parse\<close>: milliseconds since the epoch of six instants.\<close>

definition example_parse :: "string \<Rightarrow> jsnum" where
  "example_parse t =
     (case map_of [(''2024-01-01T09:00:00Z'', 1704099600000),
                   (''2024-01-01T10:00:00Z'', 1704103200000),
                   (''2024-01-01T10:30:00Z'', 1704105000000),
                   (''2024-01-01T11:01:00Z'', 1704106860000),
                   (''2024-01-01T12:00:00Z'', 1704110400000),
                   (''2024-01-01T14:00:00Z'', 1704117600000)] t of
        None \<Rightarrow> NaN
      | Some ms \<Rightarrow> Fin ms)"

definition sub0 :: subscription where
  "sub0 = \<lparr>id_sub = 1, phone = ''+15550100'', speciesCode = ''norcar'',
            speciesCommonName = ''Northern Cardinal'', locationLabel = ''Austin'',
            latitude = 30, longitude = -97, radiusMiles = 25, lookBackDays = 3,
            createdAt = ''2024-01-01T08:00:00Z'',
            lastObservationId = None, lastNotifiedAt = None\<rparr>"

definition sub_notified :: subscription where
  "sub_notified = sub0\<lparr>lastObservationId := Some ''S100'',
                        lastNotifiedAt := Some ''2024-01-01T10:00:00Z''\<rparr>"

definition obs_at :: "string \<Rightarrow> string \<Rightarrow> observation" where
  "obs_at i t = \<lparr>subId = i, obsDt = t, locName = ''Zilker Park''\<rparr>"

definition cfg0 :: config where
  "cfg0 = \<lparr>ebirdApiKey = ''key'', twilioAccountSid = ''AC1'', twilioAuthToken = ''token'',
            twilioFromNumber = ''+15550000'', pollIntervalCron = ''*/15 * * * *'',
            minimumNotificationMinutes = Fin 60\<rparr>"

definition feed_response :: "observation list \<Rightarrow> response" where
  "feed_response obs = \<lparr>ok = True, status = 200, statusText = ''OK'', body_text = [],
                        body_json = Inr (JArray obs)\<rparr>"

text \<open>A cycle in which the feed answers \<open>obs\<close>, every message is accepted, the store works
  and the clock reads \<open>now\<close>.\<close>

definition env_feed :: "observation list \<Rightarrow> string \<Rightarrow> env" where
  "env_feed obs now = \<lparr>http_fetch = (\<lambda>_. Inr (feed_response obs)),
                       messages_create = (\<lambda>_. None), statement_run = (\<lambda>_. None),
                       now_iso = (\<lambda>_. now)\<rparr>"

definition world0 :: "table \<Rightarrow> world" where
  "world0 rows = \<lparr>db = rows, sent = [], console = []\<rparr>"

definition env_sms_down :: "observation list \<Rightarrow> string \<Rightarrow> env" where
  "env_sms_down obs now =
     (env_feed obs now)\<lparr>messages_create := (\<lambda>_. Some (External ''twilio: rejected''))\<rparr>"

definition env_mixed :: "observation list \<Rightarrow> string \<Rightarrow> env" where
  "env_mixed obs now =
     (env_feed obs now)\<lparr>http_fetch := (\<lambda>q. if species_param q = ''amecro''
                                            then Inl (External ''fetch failed'')
                                            else Inr (feed_response obs))\<rparr>"

definition sub_crow :: subscription where
  "sub_crow = sub0\<lparr>id_sub := 2, speciesCode := ''amecro'',
                    speciesCommonName := ''American Crow'',
                    createdAt := ''2024-01-01T08:30:00Z''\<rparr>"

definition cfg_no_sms :: config where
  "cfg_no_sms = cfg0\<lparr>twilioAccountSid := [], twilioAuthToken := [], twilioFromNumber := []\<rparr>"

section \<open>The loop body, case by case\<close>

lemma pipeline_fetch_failed:
  "fetch_for cfg env s = Inl e \<Longrightarrow> pipeline dp cfg env w s = (w, Thrown e)"
  by (simp add: pipeline_def)

lemma pipeline_dispatching:
  "fetch_for cfg env s = Inr (JArray obs) \<Longrightarrow> dedup_step dp s obs = primary # others \<Longrightarrow>
   \<not> throttled dp (minimumNotificationMinutes cfg) s primary \<Longrightarrow>
   pipeline dp cfg env w s = send_and_update cfg env w s primary others"
  by (simp add: pipeline_def)

lemma pipeline_inversion:
  assumes "pipeline dp cfg env w s = (w', ex)"
  shows "(w' = w \<and> ex \<noteq> Completed) \<or>
         (\<exists>obs primary others. fetch_for cfg env s = Inr (JArray obs)
            \<and> dedup_step dp s obs = primary # others
            \<and> \<not> throttled dp (minimumNotificationMinutes cfg) s primary
            \<and> send_and_update cfg env w s primary others = (w', ex))"
  using assms
  by (auto simp: pipeline_def split: sum.splits json_value.splits list.splits if_splits)

lemma dispatch_frame:
  "dispatch cfg env w s primary others = Inr w1 \<Longrightarrow> db w1 = db w \<and> console w1 = console w"
  by (auto simp: dispatch_def Let_def split: if_splits option.splits)

lemma send_and_update_inversion:
  assumes "send_and_update cfg env w s primary others = (w', ex)"
  shows "(ex = Completed \<and> db w' = updateSubscriptionLastObservation (now_iso env (id_sub s)) (db w)
                                      (id_sub s) (subId primary))
         \<or> (ex \<noteq> Completed \<and> db w' = db w)"
  using assms
  by (auto simp: send_and_update_def dest: dispatch_frame split: sum.splits option.splits)

lemma send_and_update_frame:
  assumes "send_and_update cfg env w s primary others = (w', ex)"
  shows "console w' = console w \<and> set (sent w) \<subseteq> set (sent w')"
  using assms
  by (auto simp: send_and_update_def dispatch_def Let_def
           split: sum.splits option.splits if_splits)

lemma pipeline_frame:
  assumes "pipeline dp cfg env w s = (w', ex)"
  shows "console w' = console w \<and> set (sent w) \<subseteq> set (sent w')"
  using pipeline_inversion [OF assms] send_and_update_frame [of cfg env w s _ _ w' ex]
  by blast

lemma pipeline_thrown_frame:
  assumes "pipeline dp cfg env w s = (w', Thrown e)"
  shows "db w' = db w \<and> set (sent w) \<subseteq> set (sent w') \<and> console w' = console w"
proof -
  have "db w' = db w"
    using pipeline_inversion [OF assms] send_and_update_inversion [of cfg env w s _ _ w' "Thrown e"]
    by auto
  then show ?thesis using pipeline_frame [OF assms] by simp
qed

lemma process_subscription_frame:
  assumes "db w = db v" and "set (sent v) \<subseteq> set (sent w)"
  shows "db (process_subscription dp cfg env w s) = db (process_subscription dp cfg env v s)
         \<and> set (sent (process_subscription dp cfg env v s))
             \<subseteq> set (sent (process_subscription dp cfg env w s))"
  using assms
  unfolding process_subscription_def pipeline_def send_and_update_def dispatch_def Let_def
  by (auto split: sum.splits json_value.splits list.splits option.splits if_splits)

lemma foldl_process_frame:
  assumes "db w = db v" and "set (sent v) \<subseteq> set (sent w)"
  shows "db (foldl (process_subscription dp cfg env) w xs)
           = db (foldl (process_subscription dp cfg env) v xs)
         \<and> set (sent (foldl (process_subscription dp cfg env) v xs))
             \<subseteq> set (sent (foldl (process_subscription dp cfg env) w xs))"
  using assms
proof (induction xs arbitrary: w v)
  case Nil
  then show ?case by simp
next
  case (Cons x xs)
  from process_subscription_frame [OF Cons.prems, of dp cfg env x]
  have step: "db (process_subscription dp cfg env w x) = db (process_subscription dp cfg env v x)"
      "set (sent (process_subscription dp cfg env v x))
         \<subseteq> set (sent (process_subscription dp cfg env w x))"
    by simp_all
  from Cons.IH [OF step] show ?case by simp
qed

lemma process_subscription_console:
  "set (console w) \<subseteq> set (console (process_subscription dp cfg env w s))"
proof -
  obtain w' ex where p: "pipeline dp cfg env w s = (w', ex)"
    by (cases "pipeline dp cfg env w s")
  from pipeline_frame [OF p] show ?thesis
    by (cases ex) (auto simp: process_subscription_def p)
qed

lemma foldl_process_console:
  "set (console w) \<subseteq> set (console (foldl (process_subscription dp cfg env) w xs))"
proof (induction xs arbitrary: w)
  case Nil
  then show ?case by simp
next
  case (Cons x xs)
  show ?case
    using process_subscription_console [of w dp cfg env x]
      Cons.IH [of "process_subscription dp cfg env w x"]
    by auto
qed

section \<open>The store, row by row\<close>

lemma set_insert_desc: "set (insert_desc r xs) = insert r (set xs)"
  by (induction xs) auto

lemma set_listSubscriptions: "set (listSubscriptions rows) = set rows"
  unfolding listSubscriptions_def by (induction rows) (auto simp: set_insert_desc)

lemma fetch_for_same_query:
  "fetch_for cfg env (s\<lparr>lastObservationId := a, lastNotifiedAt := b\<rparr>) = fetch_for cfg env s"
  by (simp add: fetch_for_def)

lemma updated_row_unique:
  assumes "distinct (map id_sub rows)" and "s \<in> set rows"
    and "r \<in> set (updateSubscriptionLastObservation now rows (id_sub s) x)"
    and "id_sub r = id_sub s"
  shows "r = s\<lparr>lastObservationId := Some x, lastNotifiedAt := Some now\<rparr>"
proof -
  from assms(3) obtain r0 where r0: "r0 \<in> set rows"
    and r: "r = (if id_sub r0 = id_sub s
                 then r0\<lparr>lastObservationId := Some x, lastNotifiedAt := Some now\<rparr> else r0)"
    unfolding updateSubscriptionLastObservation_def by auto
  have "id_sub r0 = id_sub s" using r assms(4) by (auto split: if_splits)
  moreover have "inj_on id_sub (set rows)" using assms(1) by (simp add: distinct_map)
  ultimately have "r0 = s" using r0 assms(2) by (auto dest: inj_onD)
  then show ?thesis using r by simp
qed

section \<open>The dedup filter\<close>

lemma js_le_finite: "js_le a b \<Longrightarrow> isFinite a"
  by (cases a; cases b) auto

lemma is_new_iff: "is_new dp s ob = (\<not> DedupFilter_drops dp s ob)"
  unfolding is_new_def DedupFilter_drops_def Let_def
  using js_le_finite by auto

lemma dedup_step_all_dropped:
  assumes "\<forall>ob \<in> set obs. \<not> is_new dp s ob"
  shows "dedup_step dp s obs = []"
  using assms by (cases obs) (auto simp: dedup_step_def filter_empty_conv)

lemma dedup_step_first_known:
  assumes "obs = latest # rest" and "truthy (lastObservationId s)"
    and "lastObservationId s = Some (subId latest)"
  shows "dedup_step dp s obs = []"
  using assms by (simp add: dedup_step_def)

text \<open>With an unset cursor (the first cycle of a subscription) every observation is kept.\<close>

lemma dedup_step_unset_cursor:
  "lastObservationId s = None \<Longrightarrow> lastNotifiedAt s = None \<Longrightarrow> dedup_step dp s obs = obs"
  by (cases obs) (simp_all add: dedup_step_def is_new_def)

section \<open>The example data, evaluated\<close>

lemma obs_at_sel: "subId (obs_at i t) = i" "obsDt (obs_at i t) = t"
  by (simp_all add: obs_at_def)

lemma env_feed_sel: "now_iso (env_feed obs now) i = now" "statement_run (env_feed obs now) i = None"
  by (simp_all add: env_feed_def)

lemma cfg0_simps:
  "ebirdApiKey cfg0 \<noteq> []" "twilioClient cfg0" "twilioFromNumber cfg0 \<noteq> []"
  "minimumNotificationMinutes cfg0 = Fin 60"
  by (simp_all add: cfg0_def twilioClient_def)

lemma cfg_no_sms_simps:
  "ebirdApiKey cfg_no_sms \<noteq> []" "\<not> twilioClient cfg_no_sms"
  by (simp_all add: cfg_no_sms_def cfg0_def twilioClient_def)

lemma fetch_for_env_feed:
  "ebirdApiKey cfg \<noteq> [] \<Longrightarrow> fetch_for cfg (env_feed obs now) s = Inr (JArray obs)"
  by (simp add: fetch_for_def fetchRecentObservations_def env_feed_def feed_response_def)

lemma fetch_for_env_sms_down:
  "ebirdApiKey cfg \<noteq> [] \<Longrightarrow> fetch_for cfg (env_sms_down obs now) s = Inr (JArray obs)"
  by (simp add: fetch_for_def fetchRecentObservations_def env_sms_down_def env_feed_def
      feed_response_def)

lemma fetch_for_crow:
  "fetch_for cfg0 (env_mixed obs now) sub_crow = Inl (External ''fetch failed'')"
  by (simp add: fetch_for_def fetchRecentObservations_def env_mixed_def env_feed_def
      sub_crow_def sub0_def cfg0_def)

lemma dispatch_env_sms_down:
  "dispatch cfg0 (env_sms_down obs now) w s p q = Inl (External ''twilio: rejected'')"
  by (simp add: dispatch_def env_sms_down_def env_feed_def cfg0_def twilioClient_def)

lemma send_and_update_env_feed:
  "twilioClient cfg \<Longrightarrow> twilioFromNumber cfg \<noteq> [] \<Longrightarrow>
   send_and_update cfg (env_feed obs now) w s p q =
     (w\<lparr>sent := sent w @ [alert_sms cfg s p q],
        db := updateSubscriptionLastObservation now (db w) (id_sub s) (subId p)\<rparr>, Completed)"
  by (simp add: send_and_update_def dispatch_def env_feed_def)

lemma send_and_update_env_mixed:
  "twilioClient cfg \<Longrightarrow> twilioFromNumber cfg \<noteq> [] \<Longrightarrow>
   send_and_update cfg (env_mixed obs now) w s p q =
     (w\<lparr>sent := sent w @ [alert_sms cfg s p q],
        db := updateSubscriptionLastObservation now (db w) (id_sub s) (subId p)\<rparr>, Completed)"
  by (simp add: send_and_update_def dispatch_def env_mixed_def env_feed_def)

lemma fetch_for_cardinal:
  "fetch_for cfg0 (env_mixed obs now) sub0 = Inr (JArray obs)"
  by (simp add: fetch_for_def fetchRecentObservations_def env_mixed_def env_feed_def
      feed_response_def sub0_def cfg0_def)

lemma listSubscriptions_two: "listSubscriptions [sub0, sub_crow] = [sub_crow, sub0]"
  by (simp add: listSubscriptions_def sub0_def sub_crow_def)

lemmas row_defs = sub_notified_def sub0_def obs_at_def example_parse_def

lemma first_cycle_dedup:
  "dedup_step example_parse sub0 [obs_at ''S100'' ''2024-01-01T10:00:00Z'']
     = [obs_at ''S100'' ''2024-01-01T10:00:00Z'']"
  by (simp add: dedup_step_def is_new_def sub0_def)

lemma sub0_not_throttled: "\<not> throttled dp m sub0 first"
  by (simp add: throttled_def sub0_def)

lemma first_cycle_pipeline:
  "pipeline example_parse cfg0
     (env_feed [obs_at ''S100'' ''2024-01-01T10:00:00Z''] ''2024-01-01T12:00:00Z'')
     (world0 [sub0]) sub0
   = (\<lparr>db = [sub0\<lparr>lastObservationId := Some ''S100'',
                     lastNotifiedAt := Some ''2024-01-01T12:00:00Z''\<rparr>],
       sent = [alert_sms cfg0 sub0 (obs_at ''S100'' ''2024-01-01T10:00:00Z'') []],
       console = []\<rparr>, Completed)"
proof -
  have "pipeline example_parse cfg0
     (env_feed [obs_at ''S100'' ''2024-01-01T10:00:00Z''] ''2024-01-01T12:00:00Z'')
     (world0 [sub0]) sub0
    = send_and_update cfg0 (env_feed [obs_at ''S100'' ''2024-01-01T10:00:00Z''] ''2024-01-01T12:00:00Z'')
        (world0 [sub0]) sub0 (obs_at ''S100'' ''2024-01-01T10:00:00Z'') []"
    by (rule pipeline_dispatching [OF fetch_for_env_feed first_cycle_dedup sub0_not_throttled])
       (rule cfg0_simps)
  also have "\<dots> = (\<lparr>db = [sub0\<lparr>lastObservationId := Some ''S100'',
                     lastNotifiedAt := Some ''2024-01-01T12:00:00Z''\<rparr>],
       sent = [alert_sms cfg0 sub0 (obs_at ''S100'' ''2024-01-01T10:00:00Z'') []],
       console = []\<rparr>, Completed)"
    unfolding send_and_update_env_feed [OF cfg0_simps(2,3)]
    by (simp add: world0_def updateSubscriptionLastObservation_def obs_at_def sub0_def)
  finally show ?thesis .
qed

section \<open>Dedup (C1)\<close>

text \<open>
  C1, as stated, fails: with the cursor at submission \<open>S100\<close>, notified at 10:00, and a feed
  whose first observation is \<open>S100\<close> and whose second, \<open>S200\<close>, was observed at 11:01, the
  rule of the specification keeps \<open>S200\<close>, while the code's guard on the first observation
  (lines 55-60) ends the iteration with no candidate.
\<close>

theorem dedup_step_first_guard_counterexample:
  "dedup_step example_parse sub_notified
      [obs_at ''S100'' ''2024-01-01T09:00:00Z'', obs_at ''S200'' ''2024-01-01T11:01:00Z''] = []
   \<and> filter (\<lambda>ob. \<not> DedupFilter_drops example_parse sub_notified ob)
      [obs_at ''S100'' ''2024-01-01T09:00:00Z'', obs_at ''S200'' ''2024-01-01T11:01:00Z'']
     = [obs_at ''S200'' ''2024-01-01T11:01:00Z'']"
  by (simp add: dedup_step_def DedupFilter_drops_def sub_notified_def sub0_def obs_at_def
        example_parse_def)

text \<open>
  C1, amended: the dedup step returns an order-preserving subsequence of the snapshot. When
  the first observation of the snapshot carries the cursor's (set) \<open>lastObservationId\<close>, it
  returns no candidate at all; otherwise it drops exactly the observations that the
  specification's rule drops and keeps every other one. In particular nothing is filtered by
  id when \<open>lastObservationId\<close> is unset.
\<close>

theorem dedup_step_amended:
  "subseq (dedup_step dp s obs) obs \<and>
   dedup_step dp s obs =
     (if \<exists>latest rest. obs = latest # rest \<and> truthy (lastObservationId s)
                        \<and> lastObservationId s = Some (subId latest)
      then [] else filter (\<lambda>ob. \<not> DedupFilter_drops dp s ob) obs)"
proof (cases obs)
  case Nil
  then show ?thesis by (simp add: dedup_step_def)
next
  case (Cons latest rest)
  have eq: "is_new dp s = (\<lambda>ob. \<not> DedupFilter_drops dp s ob)"
    by (rule ext) (rule is_new_iff)
  have sub: "subseq (filter (\<lambda>ob. \<not> DedupFilter_drops dp s ob) (latest # rest)) (latest # rest)"
    by (rule subseq_filter_left)
  show ?thesis
    unfolding Cons dedup_step_def eq using sub by (simp del: filter.simps)
qed

text \<open>
  The amended statement of C1 at a feed whose first observation is older than the cursor and
  has another id: the older one is dropped by time, the newer one is kept.
\<close>

theorem dedup_step_amended_witness:
  "dedup_step example_parse sub_notified
      [obs_at ''S090'' ''2024-01-01T09:00:00Z'', obs_at ''S200'' ''2024-01-01T11:01:00Z'']
     = [obs_at ''S200'' ''2024-01-01T11:01:00Z'']"
  using dedup_step_amended [of example_parse sub_notified
      "[obs_at ''S090'' ''2024-01-01T09:00:00Z'', obs_at ''S200'' ''2024-01-01T11:01:00Z'']"]
  by (simp add: DedupFilter_drops_def sub_notified_def sub0_def obs_at_def example_parse_def)

section \<open>Throttle (C2)\<close>

text \<open>
  On a batch of one new sighting whose times parse, the code and the specification's gate
  decide alike, whatever the minimum.
\<close>

lemma throttle_single_sighting:
  assumes "is_new dp s ob"
    and "dp (obsDt ob) = Fin t"
    and "truthy (lastNotifiedAt s) \<longrightarrow> parse_nullable dp (lastNotifiedAt s) = Fin l"
  shows "ThrottleGate_shouldNotify dp (Fin m) s [ob] = (\<not> throttled dp (Fin m) s ob)"
proof (cases "truthy (lastNotifiedAt s)")
  case False
  then show ?thesis by (simp add: ThrottleGate_shouldNotify_def throttled_def)
next
  case True
  with assms(3) have l: "parse_nullable dp (lastNotifiedAt s) = Fin l" by simp
  have "l < t"
    using assms(1) True l assms(2) by (auto simp: is_new_def Let_def split: if_splits)
  then have pos: "0 < (t - l) / (1000 * 60)" by simp
  show ?thesis
    using True l assms(2) pos
    by (auto simp: ThrottleGate_shouldNotify_def throttled_def Let_def not_less)
qed

text \<open>
  C2 at a batch of two new sightings, the first observed 61 minutes and the second 30 minutes
  after \<open>lastNotifiedAt\<close>, with a minimum of 60 minutes: the earliest sighting is 30 minutes
  after the last notification, so the specification's gate does not notify; the code reads
  the time of \<^verbatim>\<open>newSightings[0]\<close> (which it names \<^verbatim>\<open>earliestObservation\<close>), does not throttle,
  sends the alert and advances the cursor.
\<close>

theorem throttle_takes_first_sighting:
  "dedup_step example_parse sub_notified
     [obs_at ''S300'' ''2024-01-01T11:01:00Z'', obs_at ''S200'' ''2024-01-01T10:30:00Z'']
     = [obs_at ''S300'' ''2024-01-01T11:01:00Z'', obs_at ''S200'' ''2024-01-01T10:30:00Z'']
   \<and> \<not> ThrottleGate_shouldNotify example_parse (Fin 60) sub_notified
        [obs_at ''S300'' ''2024-01-01T11:01:00Z'', obs_at ''S200'' ''2024-01-01T10:30:00Z'']
   \<and> \<not> throttled example_parse (Fin 60) sub_notified (obs_at ''S300'' ''2024-01-01T11:01:00Z'')
   \<and> process_subscription example_parse cfg0
        (env_feed [obs_at ''S300'' ''2024-01-01T11:01:00Z'', obs_at ''S200'' ''2024-01-01T10:30:00Z'']
           ''2024-01-01T12:00:00Z'')
        (world0 [sub_notified]) sub_notified
      = \<lparr>db = [sub_notified\<lparr>lastObservationId := Some ''S300'',
                                lastNotifiedAt := Some ''2024-01-01T12:00:00Z''\<rparr>],
          sent = [alert_sms cfg0 sub_notified (obs_at ''S300'' ''2024-01-01T11:01:00Z'')
                    [obs_at ''S200'' ''2024-01-01T10:30:00Z'']],
          console = []\<rparr>"
proof -
  let ?feed = "[obs_at ''S300'' ''2024-01-01T11:01:00Z'', obs_at ''S200'' ''2024-01-01T10:30:00Z'']"
  let ?env = "env_feed ?feed ''2024-01-01T12:00:00Z''"
  have d: "dedup_step example_parse sub_notified ?feed = ?feed"
    by (simp add: dedup_step_def is_new_def row_defs)
  have g: "\<not> ThrottleGate_shouldNotify example_parse (Fin 60) sub_notified ?feed"
    by (simp add: ThrottleGate_shouldNotify_def row_defs)
  have t: "\<not> throttled example_parse (minimumNotificationMinutes cfg0) sub_notified
               (obs_at ''S300'' ''2024-01-01T11:01:00Z'')"
    by (simp add: throttled_def cfg0_simps row_defs)
  have "pipeline example_parse cfg0 ?env (world0 [sub_notified]) sub_notified
        = send_and_update cfg0 ?env (world0 [sub_notified]) sub_notified
            (obs_at ''S300'' ''2024-01-01T11:01:00Z'') [obs_at ''S200'' ''2024-01-01T10:30:00Z'']"
    by (rule pipeline_dispatching [OF fetch_for_env_feed [OF cfg0_simps(1)] d t])
  then have p: "process_subscription example_parse cfg0 ?env (world0 [sub_notified]) sub_notified
      = \<lparr>db = [sub_notified\<lparr>lastObservationId := Some ''S300'',
                                lastNotifiedAt := Some ''2024-01-01T12:00:00Z''\<rparr>],
          sent = [alert_sms cfg0 sub_notified (obs_at ''S300'' ''2024-01-01T11:01:00Z'')
                    [obs_at ''S200'' ''2024-01-01T10:30:00Z'']],
          console = []\<rparr>"
    unfolding process_subscription_def send_and_update_env_feed [OF cfg0_simps(2,3)]
    by (simp add: world0_def updateSubscriptionLastObservation_def obs_at_sel)
  show ?thesis using d g t p by (simp add: cfg0_simps)
qed

section \<open>The feed client and "not found" (C3)\<close>

text \<open>
  C3 at a 404 response: the server's feed client raises an error where the claim asks for
  an empty sequence of observations.
\<close>

theorem fetchRecentObservations_not_found_throws:
  "fetchRecentObservations
      (\<lambda>_. Inr \<lparr>ok = False, status = 404, statusText = ''Not Found'', body_text = [],
                 body_json = Inr (JArray [])\<rparr>)
      ''norcar'' 30 (-97) 25 3 ''key''
    = Inl (Error ''eBird API returned 404 Not Found: '')"
  by (simp add: fetchRecentObservations_def show_int_def digit_char_def)

section \<open>Failures leave the cursor (C4)\<close>

text \<open>
  C4: when the feed fetch of a subscription fails, or its batch reaches the dispatch and the
  dispatch fails, the iteration only logs the error: the table (so the subscription's
  \<open>lastObservationId\<close> and \<open>lastNotifiedAt\<close>) is unchanged and nothing was sent, so that the
  next cycle starts from the same cursor.
\<close>

theorem failure_keeps_cursor:
  assumes "fetch_for cfg env s = Inl e
           \<or> (\<exists>obs primary others. fetch_for cfg env s = Inr (JArray obs)
                 \<and> dedup_step dp s obs = primary # others
                 \<and> \<not> throttled dp (minimumNotificationMinutes cfg) s primary
                 \<and> dispatch cfg env w s primary others = Inl e)"
  shows "process_subscription dp cfg env w s
           = w\<lparr>console := console w @ [Failed_to_process (id_sub s) e]\<rparr>
         \<and> db (process_subscription dp cfg env w s) = db w
         \<and> sent (process_subscription dp cfg env w s) = sent w"
proof -
  have "pipeline dp cfg env w s = (w, Thrown e)"
    using assms
  proof
    assume "fetch_for cfg env s = Inl e"
    then show ?thesis by (rule pipeline_fetch_failed)
  next
    assume "\<exists>obs primary others. fetch_for cfg env s = Inr (JArray obs)
                 \<and> dedup_step dp s obs = primary # others
                 \<and> \<not> throttled dp (minimumNotificationMinutes cfg) s primary
                 \<and> dispatch cfg env w s primary others = Inl e"
    then obtain obs primary others where
      h: "fetch_for cfg env s = Inr (JArray obs)" "dedup_step dp s obs = primary # others"
         "\<not> throttled dp (minimumNotificationMinutes cfg) s primary"
         "dispatch cfg env w s primary others = Inl e"
      by blast
    show ?thesis
      using pipeline_dispatching [OF h(1-3), of w] h(4)
      by (simp add: send_and_update_def)
  qed
  then show ?thesis by (simp add: process_subscription_def)
qed

text \<open>
  C4 at a subscription whose fetch is refused, and at one whose message the transport rejects.
\<close>

theorem failure_keeps_cursor_witness:
  "fetch_for cfg0 (env_mixed [obs_at ''S100'' ''2024-01-01T10:00:00Z''] ''2024-01-01T12:00:00Z'')
      sub_crow = Inl (External ''fetch failed'')
   \<and> process_subscription example_parse cfg0
        (env_mixed [obs_at ''S100'' ''2024-01-01T10:00:00Z''] ''2024-01-01T12:00:00Z'')
        (world0 [sub_crow]) sub_crow
      = \<lparr>db = [sub_crow], sent = [],
          console = [Failed_to_process 2 (External ''fetch failed'')]\<rparr>
   \<and> dispatch cfg0
        (env_sms_down [obs_at ''S100'' ''2024-01-01T10:00:00Z''] ''2024-01-01T12:00:00Z'')
        (world0 [sub0]) sub0 (obs_at ''S100'' ''2024-01-01T10:00:00Z'') []
      = Inl (External ''twilio: rejected'')
   \<and> process_subscription example_parse cfg0
        (env_sms_down [obs_at ''S100'' ''2024-01-01T10:00:00Z''] ''2024-01-01T12:00:00Z'')
        (world0 [sub0]) sub0
      = \<lparr>db = [sub0], sent = [],
          console = [Failed_to_process 1 (External ''twilio: rejected'')]\<rparr>"
proof -
  let ?feed = "[obs_at ''S100'' ''2024-01-01T10:00:00Z'']"
  let ?now = "''2024-01-01T12:00:00Z''"
  have a: "process_subscription example_parse cfg0 (env_mixed ?feed ?now) (world0 [sub_crow]) sub_crow
      = \<lparr>db = [sub_crow], sent = [], console = [Failed_to_process 2 (External ''fetch failed'')]\<rparr>"
    using failure_keeps_cursor [of cfg0 "env_mixed ?feed ?now" sub_crow "External ''fetch failed''"
        example_parse "world0 [sub_crow]"] fetch_for_crow [of ?feed ?now]
    by (simp add: world0_def) (simp add: sub_crow_def)
  have h: "\<exists>obs primary others. fetch_for cfg0 (env_sms_down ?feed ?now) sub0 = Inr (JArray obs)
                 \<and> dedup_step example_parse sub0 obs = primary # others
                 \<and> \<not> throttled example_parse (minimumNotificationMinutes cfg0) sub0 primary
                 \<and> dispatch cfg0 (env_sms_down ?feed ?now) (world0 [sub0]) sub0 primary others
                     = Inl (External ''twilio: rejected'')"
    using fetch_for_env_sms_down [OF cfg0_simps(1)] first_cycle_dedup sub0_not_throttled
      dispatch_env_sms_down by blast
  have b: "process_subscription example_parse cfg0 (env_sms_down ?feed ?now) (world0 [sub0]) sub0
      = \<lparr>db = [sub0], sent = [], console = [Failed_to_process 1 (External ''twilio: rejected'')]\<rparr>"
    using failure_keeps_cursor [of cfg0 "env_sms_down ?feed ?now" sub0 "External ''twilio: rejected''"
        example_parse "world0 [sub0]"] h
    by (simp add: world0_def) (simp add: sub0_def)
  show ?thesis
    using a b fetch_for_crow dispatch_env_sms_down by simp
qed

section \<open>Replaying a snapshot after a commit (C5)\<close>

text \<open>
  C5, as stated, fails: the cursor is at \<open>S100\<close>, notified at 10:00; the feed holds \<open>S090\<close>
  (09:00), \<open>S200\<close> (11:01) and \<open>S300\<close>, whose observed-at time reads 14:00. The cycle at 12:00
  commits with \<open>S200\<close> as primary sighting. The next cycle on the same feed keeps \<open>S300\<close>
  (another id, and later than the commit time) and sends a second alert.
\<close>

theorem replay_sends_again_counterexample:
  "pipeline example_parse cfg0
     (env_feed [obs_at ''S090'' ''2024-01-01T09:00:00Z'', obs_at ''S200'' ''2024-01-01T11:01:00Z'',
                obs_at ''S300'' ''2024-01-01T14:00:00Z''] ''2024-01-01T12:00:00Z'')
     (world0 [sub_notified]) sub_notified
   = (\<lparr>db = [sub_notified\<lparr>lastObservationId := Some ''S200'',
                             lastNotifiedAt := Some ''2024-01-01T12:00:00Z''\<rparr>],
       sent = [alert_sms cfg0 sub_notified (obs_at ''S200'' ''2024-01-01T11:01:00Z'')
                 [obs_at ''S300'' ''2024-01-01T14:00:00Z'']],
       console = []\<rparr>, Completed)
   \<and> dedup_step example_parse
        (sub_notified\<lparr>lastObservationId := Some ''S200'',
                      lastNotifiedAt := Some ''2024-01-01T12:00:00Z''\<rparr>)
        [obs_at ''S090'' ''2024-01-01T09:00:00Z'', obs_at ''S200'' ''2024-01-01T11:01:00Z'',
         obs_at ''S300'' ''2024-01-01T14:00:00Z'']
      = [obs_at ''S300'' ''2024-01-01T14:00:00Z'']
   \<and> sent (process_subscription example_parse cfg0
        (env_feed [obs_at ''S090'' ''2024-01-01T09:00:00Z'', obs_at ''S200'' ''2024-01-01T11:01:00Z'',
                   obs_at ''S300'' ''2024-01-01T14:00:00Z''] ''2024-01-01T12:00:00Z'')
        \<lparr>db = [sub_notified\<lparr>lastObservationId := Some ''S200'',
                              lastNotifiedAt := Some ''2024-01-01T12:00:00Z''\<rparr>],
         sent = [alert_sms cfg0 sub_notified (obs_at ''S200'' ''2024-01-01T11:01:00Z'')
                   [obs_at ''S300'' ''2024-01-01T14:00:00Z'']],
         console = []\<rparr>
        (sub_notified\<lparr>lastObservationId := Some ''S200'',
                      lastNotifiedAt := Some ''2024-01-01T12:00:00Z''\<rparr>))
      = [alert_sms cfg0 sub_notified (obs_at ''S200'' ''2024-01-01T11:01:00Z'')
           [obs_at ''S300'' ''2024-01-01T14:00:00Z''],
         alert_sms cfg0 (sub_notified\<lparr>lastObservationId := Some ''S200'',
                                     lastNotifiedAt := Some ''2024-01-01T12:00:00Z''\<rparr>)
           (obs_at ''S300'' ''2024-01-01T14:00:00Z'') []]"
proof -
  let ?feed = "[obs_at ''S090'' ''2024-01-01T09:00:00Z'', obs_at ''S200'' ''2024-01-01T11:01:00Z'',
                obs_at ''S300'' ''2024-01-01T14:00:00Z'']"
  let ?env = "env_feed ?feed ''2024-01-01T12:00:00Z''"
  let ?s' = "sub_notified\<lparr>lastObservationId := Some ''S200'',
                           lastNotifiedAt := Some ''2024-01-01T12:00:00Z''\<rparr>"
  let ?m1 = "alert_sms cfg0 sub_notified (obs_at ''S200'' ''2024-01-01T11:01:00Z'')
                 [obs_at ''S300'' ''2024-01-01T14:00:00Z'']"
  let ?w1 = "\<lparr>db = [?s'], sent = [?m1], console = []\<rparr>"
  have d1: "dedup_step example_parse sub_notified ?feed
            = [obs_at ''S200'' ''2024-01-01T11:01:00Z'', obs_at ''S300'' ''2024-01-01T14:00:00Z'']"
    by (simp add: dedup_step_def is_new_def row_defs)
  have t1: "\<not> throttled example_parse (minimumNotificationMinutes cfg0) sub_notified
               (obs_at ''S200'' ''2024-01-01T11:01:00Z'')"
    by (simp add: throttled_def cfg0_simps row_defs)
  have "pipeline example_parse cfg0 ?env (world0 [sub_notified]) sub_notified
        = send_and_update cfg0 ?env (world0 [sub_notified]) sub_notified
            (obs_at ''S200'' ''2024-01-01T11:01:00Z'') [obs_at ''S300'' ''2024-01-01T14:00:00Z'']"
    by (rule pipeline_dispatching [OF fetch_for_env_feed [OF cfg0_simps(1)] d1 t1])
  then have p1: "pipeline example_parse cfg0 ?env (world0 [sub_notified]) sub_notified = (?w1, Completed)"
    unfolding send_and_update_env_feed [OF cfg0_simps(2,3)]
    by (simp add: world0_def updateSubscriptionLastObservation_def obs_at_sel)
  have d2: "dedup_step example_parse ?s' ?feed = [obs_at ''S300'' ''2024-01-01T14:00:00Z'']"
    by (simp add: dedup_step_def is_new_def row_defs)
  have t2: "\<not> throttled example_parse (minimumNotificationMinutes cfg0) ?s'
               (obs_at ''S300'' ''2024-01-01T14:00:00Z'')"
    by (simp add: throttled_def cfg0_simps row_defs)
  have "pipeline example_parse cfg0 ?env ?w1 ?s'
        = send_and_update cfg0 ?env ?w1 ?s' (obs_at ''S300'' ''2024-01-01T14:00:00Z'') []"
    by (rule pipeline_dispatching [OF fetch_for_env_feed [OF cfg0_simps(1)] d2 t2])
  then have p2: "sent (process_subscription example_parse cfg0 ?env ?w1 ?s')
        = [?m1, alert_sms cfg0 ?s' (obs_at ''S300'' ''2024-01-01T14:00:00Z'') []]"
    unfolding process_subscription_def send_and_update_env_feed [OF cfg0_simps(2,3)]
    by simp
  show ?thesis using p1 d2 p2 by simp
qed

text \<open>
  C5, amended: if a cycle commits for a subscription on a snapshot, the primary sighting has a
  non-empty submission id, and either the snapshot's first observation carries that id or every
  observation of another id has an observed-at time that parses and is at most the commit
  time, then the next cycle on the identical snapshot finds the row with the advanced cursor,
  has no new sighting and leaves the world as it is (nothing sent, nothing written).
\<close>

theorem replay_after_commit:
  assumes commit: "pipeline dp cfg env1 w0 s = (w1, Completed)"
    and feed1: "fetch_for cfg env1 s = Inr (JArray obs)"
    and first: "dedup_step dp s obs = primary # others"
    and feed2: "fetch_for cfg env2 s = Inr (JArray obs)"
    and row: "s \<in> set (db w0)"
    and key: "distinct (map id_sub (db w0))"
    and clock: "now_iso env1 (id_sub s) \<noteq> []" "dp (now_iso env1 (id_sub s)) = Fin t"
    and ident: "subId primary \<noteq> []"
    and covered: "(\<exists>latest rest. obs = latest # rest \<and> subId latest = subId primary)
                  \<or> (\<forall>ob \<in> set obs. subId ob = subId primary \<or> js_le (dp (obsDt ob)) (Fin t))"
  shows "\<forall>s' \<in> set (listSubscriptions (db w1)). id_sub s' = id_sub s \<longrightarrow>
           s' = s\<lparr>lastObservationId := Some (subId primary),
                   lastNotifiedAt := Some (now_iso env1 (id_sub s))\<rparr>
           \<and> dedup_step dp s' obs = []
           \<and> process_subscription dp cfg env2 w1 s' = w1"
proof (intro ballI impI)
  fix s' assume mem: "s' \<in> set (listSubscriptions (db w1))" and same: "id_sub s' = id_sub s"
  let ?now = "now_iso env1 (id_sub s)"
  from pipeline_inversion [OF commit] feed1 first
  have "send_and_update cfg env1 w0 s primary others = (w1, Completed)" by auto
  from send_and_update_inversion [OF this]
  have db1: "db w1 = updateSubscriptionLastObservation ?now (db w0) (id_sub s) (subId primary)"
    by simp
  have s': "s' = s\<lparr>lastObservationId := Some (subId primary), lastNotifiedAt := Some ?now\<rparr>"
    using updated_row_unique [OF key row _ same] mem
    by (simp add: set_listSubscriptions db1)
  have none: "dedup_step dp s' obs = []"
    using covered
  proof
    assume "\<exists>latest rest. obs = latest # rest \<and> subId latest = subId primary"
    then obtain latest rest where l: "obs = latest # rest" "subId latest = subId primary" by blast
    show ?thesis
      using ident l dedup_step_first_known [where obs = obs and latest = latest and rest = rest
          and s = s' and dp = dp]
      by (simp add: s')
  next
    assume all: "\<forall>ob \<in> set obs. subId ob = subId primary \<or> js_le (dp (obsDt ob)) (Fin t)"
    show ?thesis
    proof (rule dedup_step_all_dropped, rule ballI)
      fix ob assume "ob \<in> set obs"
      with all have "subId ob = subId primary \<or> js_le (dp (obsDt ob)) (Fin t)" by blast
      then show "\<not> is_new dp s' ob"
        using ident clock js_le_finite [of "dp (obsDt ob)" "Fin t"]
        by (auto simp: is_new_def s' Let_def)
    qed
  qed
  have "fetch_for cfg env2 s' = Inr (JArray obs)"
    using feed2 by (simp add: s' fetch_for_same_query)
  then have "process_subscription dp cfg env2 w1 s' = w1"
    using none by (simp add: process_subscription_def pipeline_def)
  with s' none show "s' = s\<lparr>lastObservationId := Some (subId primary),
                   lastNotifiedAt := Some (now_iso env1 (id_sub s))\<rparr>
           \<and> dedup_step dp s' obs = []
           \<and> process_subscription dp cfg env2 w1 s' = w1" by simp
qed

text \<open>
  The amended statement of C5 at the scenario of the specification: cursor unset, one
  observation \<open>S100\<close> observed at 10:00, committed at 12:00, replayed at 14:00.
\<close>

theorem replay_after_commit_witness:
  "pipeline example_parse cfg0
     (env_feed [obs_at ''S100'' ''2024-01-01T10:00:00Z''] ''2024-01-01T12:00:00Z'')
     (world0 [sub0]) sub0
   = (\<lparr>db = [sub0\<lparr>lastObservationId := Some ''S100'',
                     lastNotifiedAt := Some ''2024-01-01T12:00:00Z''\<rparr>],
       sent = [alert_sms cfg0 sub0 (obs_at ''S100'' ''2024-01-01T10:00:00Z'') []],
       console = []\<rparr>, Completed)
   \<and> dedup_step example_parse
        (sub0\<lparr>lastObservationId := Some ''S100'', lastNotifiedAt := Some ''2024-01-01T12:00:00Z''\<rparr>)
        [obs_at ''S100'' ''2024-01-01T10:00:00Z''] = []
   \<and> process_subscription example_parse cfg0
        (env_feed [obs_at ''S100'' ''2024-01-01T10:00:00Z''] ''2024-01-01T14:00:00Z'')
        \<lparr>db = [sub0\<lparr>lastObservationId := Some ''S100'',
                      lastNotifiedAt := Some ''2024-01-01T12:00:00Z''\<rparr>],
         sent = [alert_sms cfg0 sub0 (obs_at ''S100'' ''2024-01-01T10:00:00Z'') []],
         console = []\<rparr>
        (sub0\<lparr>lastObservationId := Some ''S100'', lastNotifiedAt := Some ''2024-01-01T12:00:00Z''\<rparr>)
      = \<lparr>db = [sub0\<lparr>lastObservationId := Some ''S100'',
                      lastNotifiedAt := Some ''2024-01-01T12:00:00Z''\<rparr>],
         sent = [alert_sms cfg0 sub0 (obs_at ''S100'' ''2024-01-01T10:00:00Z'') []],
         console = []\<rparr>"
proof -
  let ?feed = "[obs_at ''S100'' ''2024-01-01T10:00:00Z'']"
  let ?env1 = "env_feed ?feed ''2024-01-01T12:00:00Z''"
  let ?env2 = "env_feed ?feed ''2024-01-01T14:00:00Z''"
  let ?s' = "sub0\<lparr>lastObservationId := Some ''S100'', lastNotifiedAt := Some ''2024-01-01T12:00:00Z''\<rparr>"
  let ?w1 = "\<lparr>db = [?s'], sent = [alert_sms cfg0 sub0 (obs_at ''S100'' ''2024-01-01T10:00:00Z'') []],
         console = []\<rparr>"
  have row: "sub0 \<in> set (db (world0 [sub0]))" by (simp add: world0_def)
  have key: "distinct (map id_sub (db (world0 [sub0])))" by (simp add: world0_def)
  have c1: "now_iso ?env1 (id_sub sub0) \<noteq> []" by (simp add: env_feed_sel)
  have c2: "example_parse (now_iso ?env1 (id_sub sub0)) = Fin 1704110400000"
    by (simp add: env_feed_sel example_parse_def)
  have ident: "subId (obs_at ''S100'' ''2024-01-01T10:00:00Z'') \<noteq> []" by (simp add: obs_at_sel)
  have cov: "(\<exists>latest rest. ?feed = latest # rest
                 \<and> subId latest = subId (obs_at ''S100'' ''2024-01-01T10:00:00Z''))
             \<or> (\<forall>ob \<in> set ?feed. subId ob = subId (obs_at ''S100'' ''2024-01-01T10:00:00Z'')
                   \<or> js_le (example_parse (obsDt ob)) (Fin 1704110400000))"
    by simp
  note inst = replay_after_commit [OF first_cycle_pipeline fetch_for_env_feed [OF cfg0_simps(1)]
      first_cycle_dedup fetch_for_env_feed [OF cfg0_simps(1)] row key c1 c2 ident cov,
      of "''2024-01-01T14:00:00Z''"]
  have l: "listSubscriptions (db ?w1) = [?s']"
    by (simp add: listSubscriptions_def)
  have "dedup_step example_parse ?s' ?feed = [] \<and> process_subscription example_parse cfg0 ?env2 ?w1 ?s' = ?w1"
    using inst unfolding l by (simp add: env_feed_sel obs_at_sel)
  then show ?thesis using first_cycle_pipeline by simp
qed

section \<open>The commit (C6)\<close>

text \<open>
  C6: an iteration changes the table only when it runs to its end, and then by exactly one call
  of \<open>updateSubscriptionLastObservation\<close> with the primary sighting's submission id and the
  clock's time; that update keeps the number of rows, writes both cursor fields of every row
  with the given id, and leaves every other row as it was.
\<close>

theorem commit_writes_both:
  assumes "pipeline dp cfg env w s = (w', ex)"
  shows "(ex = Completed \<longrightarrow>
            (\<exists>obs primary others. fetch_for cfg env s = Inr (JArray obs)
               \<and> dedup_step dp s obs = primary # others
               \<and> db w' = updateSubscriptionLastObservation (now_iso env (id_sub s)) (db w)
                            (id_sub s) (subId primary)))
         \<and> (ex \<noteq> Completed \<longrightarrow> db w' = db w)
         \<and> length (updateSubscriptionLastObservation now rows i observationId) = length rows
         \<and> (\<forall>k < length rows.
               updateSubscriptionLastObservation now rows i observationId ! k =
                 (if id_sub (rows ! k) = i
                  then (rows ! k)\<lparr>lastObservationId := Some observationId,
                                   lastNotifiedAt := Some now\<rparr>
                  else rows ! k))"
proof -
  have a: "(ex = Completed \<longrightarrow>
            (\<exists>obs primary others. fetch_for cfg env s = Inr (JArray obs)
               \<and> dedup_step dp s obs = primary # others
               \<and> db w' = updateSubscriptionLastObservation (now_iso env (id_sub s)) (db w)
                            (id_sub s) (subId primary)))
         \<and> (ex \<noteq> Completed \<longrightarrow> db w' = db w)"
    using pipeline_inversion [OF assms] send_and_update_inversion
    by blast
  have b: "length (updateSubscriptionLastObservation now rows i observationId) = length rows"
    by (simp add: updateSubscriptionLastObservation_def)
  have c: "\<forall>k < length rows.
               updateSubscriptionLastObservation now rows i observationId ! k =
                 (if id_sub (rows ! k) = i
                  then (rows ! k)\<lparr>lastObservationId := Some observationId,
                                   lastNotifiedAt := Some now\<rparr>
                  else rows ! k)"
    by (simp add: updateSubscriptionLastObservation_def)
  show ?thesis using a b c by blast
qed

text \<open>
  C6 at the first cycle of the specification's scenario, and at a table of two rows.
\<close>

theorem commit_writes_both_witness:
  "pipeline example_parse cfg0
     (env_feed [obs_at ''S100'' ''2024-01-01T10:00:00Z''] ''2024-01-01T12:00:00Z'')
     (world0 [sub0]) sub0
   = (\<lparr>db = [sub0\<lparr>lastObservationId := Some ''S100'',
                     lastNotifiedAt := Some ''2024-01-01T12:00:00Z''\<rparr>],
       sent = [alert_sms cfg0 sub0 (obs_at ''S100'' ''2024-01-01T10:00:00Z'') []],
       console = []\<rparr>, Completed)
   \<and> (\<exists>obs primary others.
         fetch_for cfg0 (env_feed [obs_at ''S100'' ''2024-01-01T10:00:00Z''] ''2024-01-01T12:00:00Z'') sub0
           = Inr (JArray obs)
         \<and> dedup_step example_parse sub0 obs = primary # others
         \<and> [sub0\<lparr>lastObservationId := Some ''S100'',
                   lastNotifiedAt := Some ''2024-01-01T12:00:00Z''\<rparr>]
             = updateSubscriptionLastObservation ''2024-01-01T12:00:00Z'' [sub0] 1 (subId primary))
   \<and> updateSubscriptionLastObservation ''2024-01-01T12:00:00Z'' [sub0, sub_notified\<lparr>id_sub := 2\<rparr>] 1 ''S100'' ! 0
       = sub0\<lparr>lastObservationId := Some ''S100'', lastNotifiedAt := Some ''2024-01-01T12:00:00Z''\<rparr>
   \<and> updateSubscriptionLastObservation ''2024-01-01T12:00:00Z'' [sub0, sub_notified\<lparr>id_sub := 2\<rparr>] 1 ''S100'' ! 1
       = sub_notified\<lparr>id_sub := 2\<rparr>"
proof -
  note inst = commit_writes_both [OF first_cycle_pipeline,
      of "''2024-01-01T12:00:00Z''" "[sub0, sub_notified\<lparr>id_sub := 2\<rparr>]" 1 "''S100''"]
  have a: "\<exists>obs primary others.
         fetch_for cfg0 (env_feed [obs_at ''S100'' ''2024-01-01T10:00:00Z''] ''2024-01-01T12:00:00Z'') sub0
           = Inr (JArray obs)
         \<and> dedup_step example_parse sub0 obs = primary # others
         \<and> [sub0\<lparr>lastObservationId := Some ''S100'',
                   lastNotifiedAt := Some ''2024-01-01T12:00:00Z''\<rparr>]
             = updateSubscriptionLastObservation ''2024-01-01T12:00:00Z'' [sub0] 1 (subId primary)"
    using inst by (simp add: env_feed_def world0_def sub0_def)
  have b: "updateSubscriptionLastObservation ''2024-01-01T12:00:00Z'' [sub0, sub_notified\<lparr>id_sub := 2\<rparr>] 1 ''S100'' ! 0
       = sub0\<lparr>lastObservationId := Some ''S100'', lastNotifiedAt := Some ''2024-01-01T12:00:00Z''\<rparr>"
    using inst by (simp add: sub0_def)
  have c: "updateSubscriptionLastObservation ''2024-01-01T12:00:00Z'' [sub0, sub_notified\<lparr>id_sub := 2\<rparr>] 1 ''S100'' ! 1
       = sub_notified\<lparr>id_sub := 2\<rparr>"
    using inst by (simp add: sub0_def sub_notified_def)
  show ?thesis using first_cycle_pipeline a b c by blast
qed

section \<open>Cursor updates addressed to an absent row (C7)\<close>

text \<open>
  C7: a cursor update addressed to an id that no row carries returns the table as it is (the
  UPDATE has no error branch of its own); in particular, after a delete of that id the update
  changes nothing and the deleted subscription is still absent.
\<close>

theorem updateSubscriptionLastObservation_absent_noop:
  "(i \<notin> id_sub ` set rows \<longrightarrow> updateSubscriptionLastObservation now rows i observationId = rows)
   \<and> updateSubscriptionLastObservation now (deleteSubscription rows i) i observationId
       = deleteSubscription rows i
   \<and> getSubscriptionById
        (updateSubscriptionLastObservation now (deleteSubscription rows i) i observationId) i = None"
proof -
  have a: "i \<notin> id_sub ` set xs \<Longrightarrow> updateSubscriptionLastObservation now xs i observationId = xs"
    for xs
    unfolding updateSubscriptionLastObservation_def by (induction xs) auto
  have b: "i \<notin> id_sub ` set (deleteSubscription rows i)"
    unfolding deleteSubscription_def by auto
  show ?thesis
    using a b by (auto simp: getSubscriptionById_def find_None_iff)
qed

text \<open>
  C7 at a table that never held row 2, and at one from which row 2 was deleted.
\<close>

theorem updateSubscriptionLastObservation_absent_noop_witness:
  "2 \<notin> id_sub ` set [sub0]
   \<and> updateSubscriptionLastObservation ''2024-01-01T12:00:00Z'' [sub0] 2 ''S100'' = [sub0]
   \<and> updateSubscriptionLastObservation ''2024-01-01T12:00:00Z''
        (deleteSubscription [sub0, sub_notified\<lparr>id_sub := 2\<rparr>] 2) 2 ''S100'' = [sub0]"
  using updateSubscriptionLastObservation_absent_noop
          [of 2 "[sub0]" "''2024-01-01T12:00:00Z''" "''S100''"]
        updateSubscriptionLastObservation_absent_noop
          [of 2 "[sub0, sub_notified\<lparr>id_sub := 2\<rparr>]" "''2024-01-01T12:00:00Z''" "''S100''"]
  by (simp add: sub0_def sub_notified_def deleteSubscription_def)

section \<open>Isolation of subscriptions (C8)\<close>

text \<open>
  C8: a cycle is a total function of the world, so no error leaves it. When the iteration of a
  subscription \<open>A\<close> throws (fetch, dispatch or store failure), the error is logged at \<open>A\<close>, the
  table is as before \<open>A\<close>, and the cycle goes on through every later subscription: the table
  at the end of the cycle is the one of the same cycle without \<open>A\<close>, and every alert of that
  cycle is sent.
\<close>

theorem failure_is_isolated:
  assumes "listSubscriptions (db w) = before @ A # after"
    and "snd (pipeline dp cfg env (foldl (process_subscription dp cfg env) w before) A) = Thrown e"
  shows "execute dp cfg env w
           = foldl (process_subscription dp cfg env)
               (process_subscription dp cfg env
                  (foldl (process_subscription dp cfg env) w before) A) after
         \<and> db (process_subscription dp cfg env (foldl (process_subscription dp cfg env) w before) A)
             = db (foldl (process_subscription dp cfg env) w before)
         \<and> Failed_to_process (id_sub A) e \<in> set (console (execute dp cfg env w))
         \<and> db (execute dp cfg env w)
             = db (foldl (process_subscription dp cfg env) w (before @ after))
         \<and> set (sent (foldl (process_subscription dp cfg env) w (before @ after)))
             \<subseteq> set (sent (execute dp cfg env w))"
proof -
  let ?P = "process_subscription dp cfg env"
  let ?w1 = "foldl ?P w before"
  obtain w' where p: "pipeline dp cfg env ?w1 A = (w', Thrown e)"
    using assms(2) by (cases "pipeline dp cfg env ?w1 A") auto
  have A: "?P ?w1 A = w'\<lparr>console := console w' @ [Failed_to_process (id_sub A) e]\<rparr>"
    using p by (simp add: process_subscription_def)
  have ex: "execute dp cfg env w = foldl ?P (?P ?w1 A) after"
    using assms(1) by (simp add: execute_def)
  have fr: "db (?P ?w1 A) = db ?w1" "set (sent ?w1) \<subseteq> set (sent (?P ?w1 A))"
    using pipeline_thrown_frame [OF p] by (simp_all add: A)
  have logged: "Failed_to_process (id_sub A) e \<in> set (console (?P ?w1 A))"
    by (simp add: A)
  have c: "Failed_to_process (id_sub A) e \<in> set (console (execute dp cfg env w))"
    using logged foldl_process_console [of "?P ?w1 A" dp cfg env after] unfolding ex by blast
  have f: "db (foldl ?P (?P ?w1 A) after) = db (foldl ?P ?w1 after)
           \<and> set (sent (foldl ?P ?w1 after)) \<subseteq> set (sent (foldl ?P (?P ?w1 A) after))"
    by (rule foldl_process_frame [OF fr])
  show ?thesis
    using ex fr(1) c f by simp
qed

text \<open>
  C8 at a cycle over two subscriptions: the fetch of the first one listed (row 2) is refused,
  the second one (row 1) is processed to its commit, and the cycle returns with the error in
  the log.
\<close>

theorem failure_is_isolated_witness:
  "listSubscriptions (db (world0 [sub0, sub_crow])) = [] @ sub_crow # [sub0]
   \<and> snd (pipeline example_parse cfg0
            (env_mixed [obs_at ''S100'' ''2024-01-01T10:00:00Z''] ''2024-01-01T12:00:00Z'')
            (world0 [sub0, sub_crow]) sub_crow)
       = Thrown (External ''fetch failed'')
   \<and> execute example_parse cfg0
        (env_mixed [obs_at ''S100'' ''2024-01-01T10:00:00Z''] ''2024-01-01T12:00:00Z'')
        (world0 [sub0, sub_crow])
      = \<lparr>db = [sub0\<lparr>lastObservationId := Some ''S100'',
                       lastNotifiedAt := Some ''2024-01-01T12:00:00Z''\<rparr>, sub_crow],
          sent = [alert_sms cfg0 sub0 (obs_at ''S100'' ''2024-01-01T10:00:00Z'') []],
          console = [Failed_to_process 2 (External ''fetch failed'')]\<rparr>"
proof -
  let ?feed = "[obs_at ''S100'' ''2024-01-01T10:00:00Z'']"
  let ?env = "env_mixed ?feed ''2024-01-01T12:00:00Z''"
  let ?w = "world0 [sub0, sub_crow]"
  let ?logged = "\<lparr>db = [sub0, sub_crow], sent = [],
                  console = [Failed_to_process 2 (External ''fetch failed'')]\<rparr>"
  have l: "listSubscriptions (db ?w) = [] @ sub_crow # [sub0]"
    by (simp add: world0_def listSubscriptions_two)
  have p: "pipeline example_parse cfg0 ?env w sub_crow = (w, Thrown (External ''fetch failed''))"
    for w
    by (rule pipeline_fetch_failed [OF fetch_for_crow])
  have t: "snd (pipeline example_parse cfg0 ?env
                  (foldl (process_subscription example_parse cfg0 ?env) ?w []) sub_crow)
           = Thrown (External ''fetch failed'')"
    by (simp add: p)
  note inst = failure_is_isolated [OF l t]
  have a: "process_subscription example_parse cfg0 ?env ?w sub_crow = ?logged"
    unfolding process_subscription_def p by (simp add: world0_def sub_crow_def)
  have "pipeline example_parse cfg0 ?env ?logged sub0
        = send_and_update cfg0 ?env ?logged sub0 (obs_at ''S100'' ''2024-01-01T10:00:00Z'') []"
    by (rule pipeline_dispatching [OF fetch_for_cardinal first_cycle_dedup sub0_not_throttled])
  then have b: "process_subscription example_parse cfg0 ?env ?logged sub0
      = \<lparr>db = [sub0\<lparr>lastObservationId := Some ''S100'',
                       lastNotifiedAt := Some ''2024-01-01T12:00:00Z''\<rparr>, sub_crow],
          sent = [alert_sms cfg0 sub0 (obs_at ''S100'' ''2024-01-01T10:00:00Z'') []],
          console = [Failed_to_process 2 (External ''fetch failed'')]\<rparr>"
    unfolding process_subscription_def send_and_update_env_mixed [OF cfg0_simps(2,3)]
    by (simp add: updateSubscriptionLastObservation_def obs_at_sel sub0_def sub_crow_def)
  have e: "execute example_parse cfg0 ?env ?w
      = \<lparr>db = [sub0\<lparr>lastObservationId := Some ''S100'',
                       lastNotifiedAt := Some ''2024-01-01T12:00:00Z''\<rparr>, sub_crow],
          sent = [alert_sms cfg0 sub0 (obs_at ''S100'' ''2024-01-01T10:00:00Z'') []],
          console = [Failed_to_process 2 (External ''fetch failed'')]\<rparr>"
    using inst by (simp add: a b)
  show ?thesis using l p e by simp
qed

section \<open>Missing SMS credentials (C9)\<close>

text \<open>
  C9: without a Twilio client or without a from-number, a batch that passes dedup and throttle
  sends nothing and still advances the cursor of the subscription to the primary sighting,
  with the clock's time.
\<close>

theorem no_credentials_still_commits:
  assumes "\<not> twilioClient cfg \<or> twilioFromNumber cfg = []"
    and "fetch_for cfg env s = Inr (JArray obs)"
    and "dedup_step dp s obs = primary # others"
    and "\<not> throttled dp (minimumNotificationMinutes cfg) s primary"
    and "statement_run env (id_sub s) = None"
  shows "process_subscription dp cfg env w s
           = w\<lparr>db := updateSubscriptionLastObservation (now_iso env (id_sub s)) (db w)
                        (id_sub s) (subId primary)\<rparr>
         \<and> sent (process_subscription dp cfg env w s) = sent w
         \<and> (s \<in> set (db w) \<longrightarrow>
              s\<lparr>lastObservationId := Some (subId primary),
                lastNotifiedAt := Some (now_iso env (id_sub s))\<rparr>
                \<in> set (db (process_subscription dp cfg env w s)))"
proof -
  have d: "dispatch cfg env w s primary others = Inr w"
    using assms(1) by (auto simp: dispatch_def)
  have p: "pipeline dp cfg env w s
           = (w\<lparr>db := updateSubscriptionLastObservation (now_iso env (id_sub s)) (db w)
                        (id_sub s) (subId primary)\<rparr>, Completed)"
    using pipeline_dispatching [OF assms(2-4), of w] d assms(5)
    by (simp add: send_and_update_def)
  have m: "s \<in> set rows \<Longrightarrow> s\<lparr>lastObservationId := Some x, lastNotifiedAt := Some n\<rparr>
             \<in> set (updateSubscriptionLastObservation n rows (id_sub s) x)" for rows x n
    unfolding updateSubscriptionLastObservation_def by force
  show ?thesis
    using p m by (simp add: process_subscription_def)
qed

text \<open>
  C9 at the first cycle of the specification's scenario, with all three SMS settings empty.
\<close>

theorem no_credentials_still_commits_witness:
  "\<not> twilioClient cfg_no_sms
   \<and> process_subscription example_parse cfg_no_sms
        (env_feed [obs_at ''S100'' ''2024-01-01T10:00:00Z''] ''2024-01-01T12:00:00Z'')
        (world0 [sub0]) sub0
      = \<lparr>db = [sub0\<lparr>lastObservationId := Some ''S100'',
                       lastNotifiedAt := Some ''2024-01-01T12:00:00Z''\<rparr>],
          sent = [], console = []\<rparr>"
proof -
  let ?feed = "[obs_at ''S100'' ''2024-01-01T10:00:00Z'']"
  let ?now = "''2024-01-01T12:00:00Z''"
  have run: "statement_run (env_feed ?feed ?now) (id_sub sub0) = None"
    by (simp add: env_feed_def)
  have "\<not> twilioClient cfg_no_sms \<or> twilioFromNumber cfg_no_sms = []"
    using cfg_no_sms_simps(2) by simp
  from no_credentials_still_commits [OF this fetch_for_env_feed [OF cfg_no_sms_simps(1)]
      first_cycle_dedup sub0_not_throttled run, of "world0 [sub0]"]
  have "process_subscription example_parse cfg_no_sms (env_feed ?feed ?now) (world0 [sub0]) sub0
      = \<lparr>db = [sub0\<lparr>lastObservationId := Some ''S100'', lastNotifiedAt := Some ?now\<rparr>],
          sent = [], console = []\<rparr>"
    by (simp add: world0_def env_feed_def updateSubscriptionLastObservation_def obs_at_def)
  then show ?thesis using cfg_no_sms_simps(2) by simp
qed

section \<open>Throttle edge cases (C10)\<close>

text \<open>
  C10: for a non-empty batch, when the configured minimum is zero or negative, or the stored
  \<open>lastNotifiedAt\<close> does not parse to a finite time, the throttle does not hold the batch
  back and the iteration goes on to dispatch and update.
\<close>

theorem throttle_skipped:
  assumes "(\<exists>r. minimumNotificationMinutes cfg = Fin r \<and> r \<le> 0)
           \<or> \<not> isFinite (parse_nullable dp (lastNotifiedAt s))"
    and "fetch_for cfg env s = Inr (JArray obs)"
    and "dedup_step dp s obs = primary # others"
  shows "\<not> throttled dp (minimumNotificationMinutes cfg) s primary
         \<and> pipeline dp cfg env w s = send_and_update cfg env w s primary others"
proof -
  have t: "\<not> throttled dp (minimumNotificationMinutes cfg) s primary"
    using assms(1) by (auto simp: throttled_def Let_def)
  show ?thesis
    using t pipeline_dispatching [OF assms(2,3) t] by simp
qed

text \<open>
  C10 at a sighting observed 30 minutes after the last notification, which a minimum of 60
  minutes throttles: it goes on to dispatch with a minimum of 0, and with the stored
  \<open>lastNotifiedAt\<close> replaced by a text that is not a date.
\<close>

theorem throttle_skipped_witness:
  "throttled example_parse (Fin 60) sub_notified (obs_at ''S200'' ''2024-01-01T10:30:00Z'')
   \<and> pipeline example_parse (cfg0\<lparr>minimumNotificationMinutes := Fin 0\<rparr>)
        (env_feed [obs_at ''S200'' ''2024-01-01T10:30:00Z''] ''2024-01-01T12:00:00Z'')
        (world0 [sub_notified]) sub_notified
      = send_and_update (cfg0\<lparr>minimumNotificationMinutes := Fin 0\<rparr>)
          (env_feed [obs_at ''S200'' ''2024-01-01T10:30:00Z''] ''2024-01-01T12:00:00Z'')
          (world0 [sub_notified]) sub_notified (obs_at ''S200'' ''2024-01-01T10:30:00Z'') []
   \<and> pipeline example_parse cfg0
        (env_feed [obs_at ''S200'' ''2024-01-01T10:30:00Z''] ''2024-01-01T12:00:00Z'')
        (world0 [sub_notified\<lparr>lastNotifiedAt := Some ''yesterday''\<rparr>])
        (sub_notified\<lparr>lastNotifiedAt := Some ''yesterday''\<rparr>)
      = send_and_update cfg0
          (env_feed [obs_at ''S200'' ''2024-01-01T10:30:00Z''] ''2024-01-01T12:00:00Z'')
          (world0 [sub_notified\<lparr>lastNotifiedAt := Some ''yesterday''\<rparr>])
          (sub_notified\<lparr>lastNotifiedAt := Some ''yesterday''\<rparr>)
          (obs_at ''S200'' ''2024-01-01T10:30:00Z'') []"
proof -
  let ?feed = "[obs_at ''S200'' ''2024-01-01T10:30:00Z'']"
  let ?now = "''2024-01-01T12:00:00Z''"
  let ?cfg = "cfg0\<lparr>minimumNotificationMinutes := Fin 0\<rparr>"
  let ?s = "sub_notified\<lparr>lastNotifiedAt := Some ''yesterday''\<rparr>"
  have t: "throttled example_parse (Fin 60) sub_notified (obs_at ''S200'' ''2024-01-01T10:30:00Z'')"
    by (simp add: throttled_def sub_notified_def sub0_def obs_at_def example_parse_def)
  have d1: "dedup_step example_parse sub_notified ?feed = ?feed"
    by (simp add: dedup_step_def is_new_def sub_notified_def sub0_def obs_at_def example_parse_def)
  have d2: "dedup_step example_parse ?s ?feed = ?feed"
    by (simp add: dedup_step_def is_new_def sub_notified_def sub0_def obs_at_def example_parse_def)
  have k: "ebirdApiKey ?cfg \<noteq> []" by (simp add: cfg0_def)
  have z: "(\<exists>r. minimumNotificationMinutes ?cfg = Fin r \<and> r \<le> 0)
           \<or> \<not> isFinite (parse_nullable example_parse (lastNotifiedAt sub_notified))"
    by simp
  have n: "(\<exists>r. minimumNotificationMinutes cfg0 = Fin r \<and> r \<le> 0)
           \<or> \<not> isFinite (parse_nullable example_parse (lastNotifiedAt ?s))"
    by (simp add: example_parse_def)
  show ?thesis
    using t throttle_skipped [OF z fetch_for_env_feed [OF k] d1, of ?now "world0 [sub_notified]"]
      throttle_skipped [OF n fetch_for_env_feed [OF cfg0_simps(1)] d2, of ?now "world0 [?s]"]
    by simp
qed

end
